theory Spec2Isabelle
  imports Complex_Main "HOL-Library.AList"
begin

section \<open>The monitoring module (src/monitoring.py) as HOL functions\<close>

text \<open>
  Conventions of the embedding.
  \<^item> A \<open>datetime\<close> is the number of microseconds on the naive local time line, a
    \<open>timedelta\<close> a difference of two of them; both are Python's own resolution.
    Every \<open>datetime.now()\<close> of the source is an argument of the model.
  \<^item> A Python \<open>float\<close> is modelled by the rational number it denotes and the
    arithmetic on it is exact: the binary64 rounding of each single operation,
    infinities and NaN are outside the model. \<open>round(x, n)\<close> rounds half to even
    at \<open>n\<close> decimals, as Python does.
  \<^item> Python \<open>int\<close> is \<open>int\<close>.
  \<^item> A raised exception is the \<open>Inl\<close> branch of a sum.
  \<^item> Every method of \<open>MetricsCollector\<close> takes the collector and returns it
    (changed or not) beside its result; lines written to the logger are returned
    as a list, in the order written.
  \<^item> A \<open>dict\<close> is an association list in insertion order; assignment to a key
    is \<open>AList.update\<close>, which keeps the position of a key that is present and
    appends a new one, as Python does.
  \<^item> The text of a formatted message is represented by its level, its kind and
    the values formatted into it.
\<close>

type_synonym datetime = int
type_synonym timedelta = int
type_synonym pyfloat = rat

datatype py_error = ValueError | ZeroDivisionError

subsection \<open>Python primitives used by the module\<close>

definition timedelta_minutes :: "int \<Rightarrow> timedelta" where
  "timedelta_minutes m = m * 60 * 1000000"

text \<open>\<open>td.total_seconds()\<close>.\<close>

definition total_seconds :: "timedelta \<Rightarrow> pyfloat" where
  "total_seconds td = of_int td / 1000000"

text \<open>\<open>int(x)\<close> on a float: truncation towards zero.\<close>

definition py_int :: "pyfloat \<Rightarrow> int" where
  "py_int x = (if 0 \<le> x then \<lfloor>x\<rfloor> else \<lceil>x\<rceil>)"

text \<open>
  \<open>str(td).split('.')[0]\<close>: the text \<open>[D day[s], ]H:MM:SS\<close> without the
  microseconds. It is a function of the normalised fields \<open>days\<close> and \<open>seconds\<close>
  of the timedelta, which stand for it here.
\<close>

definition str_timedelta_head :: "timedelta \<Rightarrow> int \<times> int" where
  "str_timedelta_head td = (td div 86400000000, (td mod 86400000000) div 1000000)"

text \<open>\<open>a / b\<close> (true division).\<close>

definition py_truediv :: "pyfloat \<Rightarrow> pyfloat \<Rightarrow> py_error + pyfloat" where
  "py_truediv a b = (if b = 0 then Inl ZeroDivisionError else Inr (a / b))"

definition round_half_even :: "rat \<Rightarrow> int" where
  "round_half_even x =
     (let f = \<lfloor>x\<rfloor>; d = x - of_int f
      in if d < 1 / 2 then f
         else if 1 / 2 < d then f + 1
         else if even f then f else f + 1)"

text \<open>\<open>round(x, ndigits)\<close>.\<close>

definition py_round :: "pyfloat \<Rightarrow> nat \<Rightarrow> pyfloat" where
  "py_round x ndigits = of_int (round_half_even (x * 10 ^ ndigits)) / 10 ^ ndigits"

text \<open>\<open>collections.deque(maxlen=n)\<close> and its \<open>append\<close>: the item is added on
  the right, and the leftmost item is dropped when the length then exceeds
  \<open>maxlen\<close>.\<close>

record 'a deque =
  maxlen :: int
  items :: "'a list"

definition deque_new :: "int \<Rightarrow> py_error + 'a deque" where
  "deque_new n = (if n < 0 then Inl ValueError else Inr \<lparr>maxlen = n, items = []\<rparr>)"

definition deque_append :: "'a deque \<Rightarrow> 'a \<Rightarrow> 'a deque" where
  "deque_append d x =
     (let ys = items d @ [x]
      in d\<lparr>items := (if maxlen d < int (length ys) then tl ys else ys)\<rparr>)"

subsection \<open>The dataclasses\<close>

record request_metrics =
  endpoint :: string
  "method" :: string
  status_code :: int
  response_time :: pyfloat
  timestamp :: datetime
  user_agent :: "string option"
  ip_address :: "string option"
  error_message :: "string option"

record system_metrics =
  cpu_percent :: pyfloat
  memory_percent :: pyfloat
  memory_used_mb :: pyfloat
  memory_available_mb :: pyfloat
  disk_usage_percent :: pyfloat
  sys_timestamp :: datetime

subsection \<open>Log lines\<close>

datatype level = INFO | WARNING | ERROR

text \<open>One constructor per message format of the module, carrying the values
  the f-string formats.\<close>

datatype message =
    Request string string int pyfloat
  | HighCPUUsage pyfloat
  | HighMemoryUsage pyfloat
  | ServerError string string int "string option"
  | ClientError string string int
  | SlowRequest string string pyfloat

type_synonym log_record = "level \<times> message"

subsection \<open>MetricsCollector\<close>

text \<open>The value of one entry of \<open>endpoint_stats\<close>.\<close>

record endpoint_stat =
  count :: int
  total_time :: pyfloat
  errors :: int
  last_called :: "datetime option"

record collector =
  max_requests :: int
  requests :: "request_metrics deque"
  system_metrics :: "system_metrics deque"
  endpoint_stats :: "(string \<times> endpoint_stat) list"
  start_time :: datetime

text \<open>The factory of the \<open>defaultdict\<close>.\<close>

definition default_endpoint_stat :: endpoint_stat where
  "default_endpoint_stat = \<lparr>count = 0, total_time = 0, errors = 0, last_called = None\<rparr>"

text \<open>\<open>d[key]\<close> on the \<open>defaultdict\<close>: a missing key is first inserted with the
  factory's value.\<close>

definition defaultdict_getitem ::
  "(string \<times> endpoint_stat) list \<Rightarrow> string \<Rightarrow> endpoint_stat \<times> (string \<times> endpoint_stat) list" where
  "defaultdict_getitem d k =
     (case map_of d k of
        Some v \<Rightarrow> (v, d)
      | None \<Rightarrow> (default_endpoint_stat, AList.update k default_endpoint_stat d))"

text \<open>\<open>MetricsCollector.__init__(max_requests)\<close>, at time \<open>now\<close>.\<close>

definition init :: "int \<Rightarrow> datetime \<Rightarrow> py_error + collector" where
  "init max_requests_arg now =
     (case deque_new max_requests_arg of
        Inl e \<Rightarrow> Inl e
      | Inr rq \<Rightarrow>
          (case deque_new 100 of
             Inl e \<Rightarrow> Inl e
           | Inr sm \<Rightarrow>
               Inr \<lparr>max_requests = max_requests_arg, requests = rq, system_metrics = sm,
                    endpoint_stats = [], start_time = now\<rparr>))"

text \<open>The default of the parameter \<open>max_requests\<close>.\<close>

definition default_max_requests :: int where
  "default_max_requests = 1000"

definition endpoint_key :: "request_metrics \<Rightarrow> string" where
  "endpoint_key metrics = method metrics @ '' '' @ endpoint metrics"

definition add_request :: "collector \<Rightarrow> request_metrics \<Rightarrow> collector \<times> log_record list" where
  "add_request self metrics =
     (let requests' = deque_append (requests self) metrics;
          (stats, d) = defaultdict_getitem (endpoint_stats self) (endpoint_key metrics);
          stats = stats\<lparr>count := count stats + 1\<rparr>;
          stats = stats\<lparr>total_time := total_time stats + response_time metrics\<rparr>;
          stats = stats\<lparr>last_called := Some (timestamp metrics)\<rparr>;
          stats = (if 400 \<le> status_code metrics then stats\<lparr>errors := errors stats + 1\<rparr> else stats)
      in (self\<lparr>requests := requests',
               endpoint_stats := AList.update (endpoint_key metrics) stats d\<rparr>,
          [(INFO, Request (method metrics) (endpoint metrics) (status_code metrics)
                    (response_time metrics))]))"

definition add_system_metrics :: "collector \<Rightarrow> system_metrics \<Rightarrow> collector \<times> log_record list" where
  "add_system_metrics self metrics =
     (self\<lparr>system_metrics := deque_append (system_metrics self) metrics\<rparr>,
      (if 80 < cpu_percent metrics then [(WARNING, HighCPUUsage (cpu_percent metrics))] else []) @
      (if 80 < memory_percent metrics then [(WARNING, HighMemoryUsage (memory_percent metrics))]
       else []))"

text \<open>One value of the \<open>endpoints\<close> dictionary of the statistics.\<close>

record endpoint_summary =
  calls :: int
  avg_response_time :: pyfloat
  error_rate :: pyfloat
  summary_last_called :: "datetime option"

text \<open>The body of the loop over \<open>endpoint_stats.items()\<close>.\<close>

definition summarise_endpoint :: "endpoint_stat \<Rightarrow> py_error + endpoint_summary" where
  "summarise_endpoint stats =
     (case (if 0 < count stats then py_truediv (total_time stats) (of_int (count stats))
            else Inr 0) of
        Inl e \<Rightarrow> Inl e
      | Inr avg_time \<Rightarrow>
          (case (if 0 < count stats then py_truediv (of_int (errors stats)) (of_int (count stats))
                 else Inr 0) of
             Inl e \<Rightarrow> Inl e
           | Inr error_rate_endpoint \<Rightarrow>
               Inr \<lparr>calls = count stats,
                    avg_response_time = py_round avg_time 3,
                    error_rate = py_round (error_rate_endpoint * 100) 2,
                    summary_last_called = last_called stats\<rparr>))"

text \<open>The loop itself, with the dictionary under construction as accumulator.\<close>

fun endpoint_summary_loop ::
  "(string \<times> endpoint_stat) list \<Rightarrow> (string \<times> endpoint_summary) list \<Rightarrow>
   py_error + (string \<times> endpoint_summary) list" where
  "endpoint_summary_loop [] acc = Inr acc"
| "endpoint_summary_loop ((k, stats) # rest) acc =
     (case summarise_endpoint stats of
        Inl e \<Rightarrow> Inl e
      | Inr v \<Rightarrow> endpoint_summary_loop rest (AList.update k v acc))"

text \<open>The dictionary returned by \<open>get_stats\<close>.\<close>

record stats =
  uptime_seconds :: int
  uptime_human :: "int \<times> int"
  total_requests :: int
  recent_requests_5min :: int
  error_rate_percent :: pyfloat
  avg_response_time_ms :: pyfloat
  current_system :: "system_metrics option"
  endpoints :: "(string \<times> endpoint_summary) list"
  stats_timestamp :: datetime

definition get_stats :: "collector \<Rightarrow> datetime \<Rightarrow> (py_error + stats) \<times> collector" where
  "get_stats self now =
     (let uptime = now - start_time self;
          n_requests = int (length (items (requests self)));
          recent_requests =
            filter (\<lambda>r. now - timestamp r < timedelta_minutes 5) (items (requests self));
          error_requests = filter (\<lambda>r. 400 \<le> status_code r) (items (requests self));
          response_times = map response_time (items (requests self));
          cur = (if items (system_metrics self) \<noteq> []
                 then Some (last (items (system_metrics self))) else None)
      in ((case (if 0 < n_requests
                 then py_truediv (of_int (int (length error_requests))) (of_int n_requests)
                 else Inr 0) of
             Inl e \<Rightarrow> Inl e
           | Inr err_rate \<Rightarrow>
               (case (if response_times \<noteq> []
                      then py_truediv (sum_list response_times)
                             (of_int (int (length response_times)))
                      else Inr 0) of
                  Inl e \<Rightarrow> Inl e
                | Inr avg_time \<Rightarrow>
                    (case endpoint_summary_loop (endpoint_stats self) [] of
                       Inl e \<Rightarrow> Inl e
                     | Inr endpoint_summary \<Rightarrow>
                         Inr \<lparr>uptime_seconds = py_int (total_seconds uptime),
                              uptime_human = str_timedelta_head uptime,
                              total_requests = n_requests,
                              recent_requests_5min = int (length recent_requests),
                              error_rate_percent = py_round (err_rate * 100) 2,
                              avg_response_time_ms = py_round (avg_time * 1000) 2,
                              current_system = cur,
                              endpoints = endpoint_summary,
                              stats_timestamp = now\<rparr>))),
          self))"

text \<open>The issue texts of the health check, each with the value formatted into it.\<close>

datatype issue =
    HighErrorRate pyfloat
  | SlowResponseTime pyfloat
  | HighCPU pyfloat
  | HighMemory pyfloat

record health =
  status :: string
  issues :: "issue list"
  uptime :: "int \<times> int"
  health_total_requests :: int
  health_timestamp :: datetime

text \<open>\<open>get_health_status\<close> reads the clock twice: inside \<open>get_stats\<close> (\<open>now\<close>)
  and for its own timestamp (\<open>now'\<close>).\<close>

definition get_health_status ::
  "collector \<Rightarrow> datetime \<Rightarrow> datetime \<Rightarrow> (py_error + health) \<times> collector" where
  "get_health_status self now now' =
     (case get_stats self now of
        (Inl e, self1) \<Rightarrow> (Inl e, self1)
      | (Inr st, self1) \<Rightarrow>
          (let health_issues = [];
               health_issues =
                 (if 10 < error_rate_percent st
                  then health_issues @ [HighErrorRate (error_rate_percent st)] else health_issues);
               health_issues =
                 (if 5000 < avg_response_time_ms st
                  then health_issues @ [SlowResponseTime (avg_response_time_ms st)]
                  else health_issues);
               health_issues =
                 (case current_system st of
                    None \<Rightarrow> health_issues
                  | Some sys \<Rightarrow>
                      (let health_issues =
                             (if 90 < cpu_percent sys
                              then health_issues @ [HighCPU (cpu_percent sys)] else health_issues)
                       in if 90 < memory_percent sys
                          then health_issues @ [HighMemory (memory_percent sys)]
                          else health_issues));
               verdict = (if health_issues = [] then ''healthy''
                          else if length health_issues < 3 then ''degraded'' else ''unhealthy'')
           in (Inr \<lparr>status = verdict, issues = health_issues, uptime = uptime_human st,
                    health_total_requests = total_requests st, health_timestamp = now'\<rparr>,
               self1)))"

subsection \<open>RequestLogger\<close>

text \<open>\<open>RequestLogger.log_request\<close> on the collector it was built with, at time
  \<open>now\<close>.\<close>

definition log_request ::
  "collector \<Rightarrow> string \<Rightarrow> string \<Rightarrow> int \<Rightarrow> pyfloat \<Rightarrow> string option \<Rightarrow> string option \<Rightarrow>
   string option \<Rightarrow> datetime \<Rightarrow> collector \<times> log_record list" where
  "log_request mc endpoint_arg method_arg status_code_arg response_time_arg user_agent_arg
     ip_address_arg error_message_arg now =
     (let metrics = \<lparr>endpoint = endpoint_arg, method = method_arg,
                     status_code = status_code_arg, response_time = response_time_arg,
                     timestamp = now, user_agent = user_agent_arg,
                     ip_address = ip_address_arg, error_message = error_message_arg\<rparr>;
          (mc', lines) = add_request mc metrics
      in (mc',
          lines @
          (if 500 \<le> status_code_arg
           then [(ERROR, ServerError method_arg endpoint_arg status_code_arg error_message_arg)]
           else if 400 \<le> status_code_arg
           then [(WARNING, ClientError method_arg endpoint_arg status_code_arg)]
           else if 10 < response_time_arg
           then [(WARNING, SlowRequest method_arg endpoint_arg response_time_arg)]
           else [])))"

section \<open>Clients of the module and the vocabulary of the properties\<close>

subsection \<open>Sequences of calls\<close>

text \<open>A call a client can make on the collector, with the clock readings the
  call takes.\<close>

datatype op =
    AddRequest request_metrics
  | AddSystemMetrics system_metrics
  | GetStats datetime
  | GetHealthStatus datetime datetime
  | LogRequest string string int pyfloat "string option" "string option" "string option" datetime

fun step :: "collector \<Rightarrow> op \<Rightarrow> collector" where
  "step s (AddRequest r) = fst (add_request s r)"
| "step s (AddSystemMetrics m) = fst (add_system_metrics s m)"
| "step s (GetStats now) = snd (get_stats s now)"
| "step s (GetHealthStatus now now') = snd (get_health_status s now now')"
| "step s (LogRequest e m sc rt ua ip err now) = fst (log_request s e m sc rt ua ip err now)"

definition run :: "collector \<Rightarrow> op list \<Rightarrow> collector" where
  "run s ops = foldl step s ops"

text \<open>The request sample a call inserts, if it inserts one.\<close>

fun sample_of :: "op \<Rightarrow> request_metrics option" where
  "sample_of (AddRequest r) = Some r"
| "sample_of (LogRequest e m sc rt ua ip err now) =
     Some \<lparr>endpoint = e, method = m, status_code = sc, response_time = rt, timestamp = now,
           user_agent = ua, ip_address = ip, error_message = err\<rparr>"
| "sample_of _ = None"

text \<open>All samples inserted by a sequence of calls, oldest first.\<close>

definition inserted :: "op list \<Rightarrow> request_metrics list" where
  "inserted ops = List.map_filter sample_of ops"

text \<open>The samples among \<open>rs\<close> that belong to the endpoint key \<open>k\<close>.\<close>

definition with_key :: "string \<Rightarrow> request_metrics list \<Rightarrow> request_metrics list" where
  "with_key k rs = filter (\<lambda>r. endpoint_key r = k) rs"

text \<open>The entry of \<open>endpoint_stats\<close> for a key as an insertion finds it: the
  stored one, or the factory's value for a key not yet present.\<close>

definition stat_before :: "collector \<Rightarrow> string \<Rightarrow> endpoint_stat" where
  "stat_before s k =
     (case map_of (endpoint_stats s) k of None \<Rightarrow> default_endpoint_stat | Some st \<Rightarrow> st)"

subsection \<open>Health rules\<close>

text \<open>The four rules of the health check, in order, each giving its issue when
  it triggers.\<close>

definition rule_issues :: "stats \<Rightarrow> issue list" where
  "rule_issues st =
     (if 10 < error_rate_percent st then [HighErrorRate (error_rate_percent st)] else []) @
     (if 5000 < avg_response_time_ms st then [SlowResponseTime (avg_response_time_ms st)] else []) @
     (case current_system st of
        None \<Rightarrow> []
      | Some sys \<Rightarrow>
          (if 90 < cpu_percent sys then [HighCPU (cpu_percent sys)] else []) @
          (if 90 < memory_percent sys then [HighMemory (memory_percent sys)] else []))"

definition verdict_of :: "nat \<Rightarrow> string" where
  "verdict_of n =
     (if n = 0 then ''healthy'' else if n = 1 \<or> n = 2 then ''degraded'' else ''unhealthy'')"

subsection \<open>Log lines of a request report\<close>

fun is_classification :: "log_record \<Rightarrow> bool" where
  "is_classification (lv, ServerError m e sc err) = True"
| "is_classification (lv, ClientError m e sc) = True"
| "is_classification (lv, SlowRequest m e rt) = True"
| "is_classification (lv, msg) = False"

fun is_request_info :: "string \<Rightarrow> string \<Rightarrow> int \<Rightarrow> pyfloat \<Rightarrow> log_record \<Rightarrow> bool" where
  "is_request_info m e sc rt (lv, Request m' e' sc' rt') =
     (lv = INFO \<and> m' = m \<and> e' = e \<and> sc' = sc \<and> rt' = rt)"
| "is_request_info m e sc rt (lv, msg) = False"

subsection \<open>Comparing two statistics results\<close>

text \<open>Two results of \<open>get_stats\<close> that are equal in every field but the
  timestamp.\<close>

fun agree_except_timestamp :: "py_error + stats \<Rightarrow> py_error + stats \<Rightarrow> bool" where
  "agree_except_timestamp (Inr x) (Inr y) = (x\<lparr>stats_timestamp := stats_timestamp y\<rparr> = y)"
| "agree_except_timestamp (Inl e) (Inl e') = (e = e')"
| "agree_except_timestamp _ _ = False"

subsection \<open>Example inputs\<close>

definition example_request :: "string \<Rightarrow> int \<Rightarrow> pyfloat \<Rightarrow> datetime \<Rightarrow> request_metrics" where
  "example_request e sc rt t =
     \<lparr>endpoint = e, method = ''GET'', status_code = sc, response_time = rt, timestamp = t,
      user_agent = None, ip_address = None, error_message = None\<rparr>"

definition example_system :: "pyfloat \<Rightarrow> pyfloat \<Rightarrow> system_metrics" where
  "example_system cpu mem =
     \<lparr>cpu_percent = cpu, memory_percent = mem, memory_used_mb = 1024,
      memory_available_mb = 512, disk_usage_percent = 45, sys_timestamp = 0\<rparr>"

text \<open>The collector that \<open>MetricsCollector(n)\<close> constructs at time \<open>t0\<close>, for
  \<open>n\<close> not negative.\<close>

definition fresh :: "int \<Rightarrow> datetime \<Rightarrow> collector" where
  "fresh n t0 =
     \<lparr>max_requests = n, requests = \<lparr>maxlen = n, items = []\<rparr>,
      system_metrics = \<lparr>maxlen = 100, items = []\<rparr>, endpoint_stats = [], start_time = t0\<rparr>"

text \<open>A collector after one failed, slow request and one snapshot of a loaded
  host; a collector after one good request.\<close>

definition example_overloaded :: collector where
  "example_overloaded =
     run (fresh 1000 0)
       [AddRequest (example_request ''/a'' 500 6 0), AddSystemMetrics (example_system 95 95)]"

definition example_one_request :: collector where
  "example_one_request = run (fresh 1000 0) [AddRequest (example_request ''/a'' 200 1 0)]"

subsection \<open>Lifetime aggregates\<close>

text \<open>What an insertion of sample \<open>r\<close> makes of the table entry \<open>st\<close> of its
  key.\<close>

definition record_sample :: "endpoint_stat \<Rightarrow> request_metrics \<Rightarrow> endpoint_stat" where
  "record_sample st r =
     st\<lparr>count := count st + 1,
        total_time := total_time st + response_time r,
        last_called := Some (timestamp r),
        errors := errors st + (if 400 \<le> status_code r then 1 else 0)\<rparr>"

text \<open>The aggregate of a list of samples: their number, the sum of their
  response times, the number of those with status code 400 or more, and the
  timestamp of the last.\<close>

definition aggregate_of :: "request_metrics list \<Rightarrow> endpoint_stat" where
  "aggregate_of w =
     \<lparr>count = int (length w),
      total_time = sum_list (map response_time w),
      errors = int (length (filter (\<lambda>r. 400 \<le> status_code r) w)),
      last_called = (if w = [] then None else Some (timestamp (last w)))\<rparr>"

text \<open>A sequence of calls with three insertions, two of them for one key.\<close>

definition example_calls :: "op list" where
  "example_calls =
     [AddRequest (example_request ''/a'' 200 1 0),
      GetStats 5,
      AddRequest (example_request ''/a'' 500 2 1),
      AddSystemMetrics (example_system 95 50),
      AddRequest (example_request ''/b'' 200 3 2)]"

subsection \<open>Unrounded rates\<close>





section \<open>Properties\<close>

subsection \<open>The queries always return\<close>

lemma summarise_endpoint_total: "\<exists>v. summarise_endpoint st = Inr v"
  by (simp add: summarise_endpoint_def py_truediv_def)

lemma endpoint_summary_loop_total: "\<exists>v. endpoint_summary_loop d acc = Inr v"
proof (induction d arbitrary: acc)
  case Nil
  show ?case by simp
next
  case (Cons p d)
  obtain k st where p: "p = (k, st)" by (cases p)
  obtain v where v: "summarise_endpoint st = Inr v"
    using summarise_endpoint_total by blast
  show ?case using Cons.IH [of "AList.update k v acc"] by (simp add: p v)
qed

lemma round_half_even_zero: "round_half_even 0 = 0"
  by (simp add: round_half_even_def)

lemma py_round_zero: "py_round 0 n = 0"
  by (simp add: py_round_def round_half_even_zero)

text \<open>What \<open>get_stats\<close> returns, field by field, in terms of the collector.\<close>

lemma get_stats_result:
  assumes "endpoint_summary_loop (endpoint_stats self) [] = Inr es"
  shows "get_stats self now =
     (Inr \<lparr>uptime_seconds = py_int (total_seconds (now - start_time self)),
           uptime_human = str_timedelta_head (now - start_time self),
           total_requests = int (length (items (requests self))),
           recent_requests_5min =
             int (length (filter (\<lambda>r. now - timestamp r < timedelta_minutes 5)
                            (items (requests self)))),
           error_rate_percent =
             (if items (requests self) = [] then 0
              else py_round (of_nat (length (filter (\<lambda>r. 400 \<le> status_code r)
                                               (items (requests self)))) /
                             of_nat (length (items (requests self))) * 100) 2),
           avg_response_time_ms =
             (if items (requests self) = [] then 0
              else py_round (sum_list (map response_time (items (requests self))) /
                             of_nat (length (items (requests self))) * 1000) 2),
           current_system =
             (if items (system_metrics self) = [] then None
              else Some (last (items (system_metrics self)))),
           endpoints = es,
           stats_timestamp = now\<rparr>, self)"
  using assms
  by (cases "items (requests self) = []")
     (simp_all add: get_stats_def Let_def py_truediv_def py_round_zero)

lemma get_stats_total: "\<exists>st. get_stats self now = (Inr st, self)"
proof -
  obtain es where es: "endpoint_summary_loop (endpoint_stats self) [] = Inr es"
    using endpoint_summary_loop_total by blast
  show ?thesis
    using get_stats_result [OF es] by blast
qed

text \<open>The health check in terms of the statistics it reads.\<close>

lemma get_health_status_result:
  assumes "get_stats self now = (Inr st, self)"
  shows "get_health_status self now now' =
     (Inr \<lparr>status = verdict_of (length (rule_issues st)), issues = rule_issues st,
           uptime = uptime_human st, health_total_requests = total_requests st,
           health_timestamp = now'\<rparr>, self)"
  by (simp add: get_health_status_def assms Let_def rule_issues_def verdict_of_def
        split: option.splits)

lemma init_Inr: "init n t0 = Inr s0 \<longleftrightarrow> 0 \<le> n \<and> s0 = fresh n t0"
  by (auto simp: init_def deque_new_def fresh_def)

lemma get_stats_fresh:
  "get_stats (fresh n t0) now =
     (Inr \<lparr>uptime_seconds = py_int (total_seconds (now - t0)),
           uptime_human = str_timedelta_head (now - t0),
           total_requests = 0, recent_requests_5min = 0, error_rate_percent = 0,
           avg_response_time_ms = 0, current_system = None, endpoints = [],
           stats_timestamp = now\<rparr>, fresh n t0)"
proof -
  have "endpoint_summary_loop (endpoint_stats (fresh n t0)) [] = Inr []"
    by (simp add: fresh_def)
  from get_stats_result [OF this, of now] show ?thesis
    by (simp add: fresh_def)
qed

text \<open>
  Claim C6. \<open>get_health_status\<close> returns a verdict on every collector, never an
  exception: the divisions of \<open>get_stats\<close> are all guarded. On the collector
  just constructed (no request, no snapshot) the statistics show no request and
  an error rate of 0, and the verdict is \<open>healthy\<close> with no issue.
\<close>

theorem C6_classify_health_total:
  assumes "init n t0 = Inr s0"
  shows "(\<exists>h. fst (get_health_status self now now') = Inr h) \<and>
         (\<exists>st. fst (get_stats s0 now) = Inr st \<and> total_requests st = 0 \<and>
               error_rate_percent st = 0) \<and>
         (\<exists>h. fst (get_health_status s0 now now') = Inr h \<and> status h = ''healthy'' \<and>
              issues h = [] \<and> health_total_requests h = 0)"
proof -
  obtain st where st: "get_stats self now = (Inr st, self)"
    using get_stats_total by blast
  have total: "\<exists>h. fst (get_health_status self now now') = Inr h"
    by (simp add: get_health_status_result [OF st])
  from assms have s0: "s0 = fresh n t0" by (simp add: init_Inr)
  note f = get_stats_fresh [of n t0 now]
  have stats0: "\<exists>st. fst (get_stats s0 now) = Inr st \<and> total_requests st = 0 \<and>
               error_rate_percent st = 0"
    by (simp add: s0 f)
  have health0: "\<exists>h. fst (get_health_status s0 now now') = Inr h \<and> status h = ''healthy'' \<and>
              issues h = [] \<and> health_total_requests h = 0"
    by (simp add: s0 get_health_status_result [OF f] rule_issues_def verdict_of_def)
  from total stats0 health0 show ?thesis by blast
qed

theorem C6_classify_health_total_witness:
  "init 1000 0 = Inr (fresh 1000 0) \<and>
   (\<exists>h. fst (get_health_status (fresh 1000 0) 5 6) = Inr h \<and> status h = ''healthy'' \<and>
        issues h = [] \<and> health_total_requests h = 0)"
proof -
  have h: "init 1000 0 = Inr (fresh 1000 0)"
    by (simp add: init_def deque_new_def fresh_def)
  show ?thesis
    using h C6_classify_health_total [OF h, of "fresh 1000 0" 5 6] by blast
qed

subsection \<open>The queries change nothing\<close>

text \<open>
  Claim C9. \<open>get_stats\<close> and \<open>get_health_status\<close> return the collector they
  were given: the request buffer, the snapshot buffer, the per-endpoint table
  and the start time are the same after the call as before.
\<close>

theorem C9_queries_are_pure_reads:
  "snd (get_stats self now) = self \<and> snd (get_health_status self now now') = self \<and>
   requests (snd (get_stats self now)) = requests self \<and>
   system_metrics (snd (get_stats self now)) = system_metrics self \<and>
   endpoint_stats (snd (get_stats self now)) = endpoint_stats self \<and>
   start_time (snd (get_stats self now)) = start_time self \<and>
   requests (snd (get_health_status self now now')) = requests self \<and>
   system_metrics (snd (get_health_status self now now')) = system_metrics self \<and>
   endpoint_stats (snd (get_health_status self now now')) = endpoint_stats self \<and>
   start_time (snd (get_health_status self now now')) = start_time self"
proof -
  obtain st where st: "get_stats self now = (Inr st, self)"
    using get_stats_total by blast
  have a: "snd (get_stats self now) = self" by (simp add: st)
  have b: "snd (get_health_status self now now') = self"
    by (simp add: get_health_status_result [OF st])
  show ?thesis by (simp add: a b)
qed

subsection \<open>Log lines of a request report\<close>

text \<open>
  Claim C7. \<open>log_request\<close> writes first the informational line of
  \<open>add_request\<close> with method, endpoint, status code and response time, and
  then at most one further line: the server-error line at level ERROR with the
  error message when the status code is at least 500, else the client-error
  line at level WARNING when it is at least 400, else the slow-request line at
  level WARNING when the response time exceeds 10, else nothing.
\<close>

theorem C7_report_request_log_lines:
  "snd (log_request mc e m sc rt ua ip err now) =
     (INFO, Request m e sc rt) #
     (if 500 \<le> sc then [(ERROR, ServerError m e sc err)]
      else if 400 \<le> sc then [(WARNING, ClientError m e sc)]
      else if 10 < rt then [(WARNING, SlowRequest m e rt)]
      else []) \<and>
   length (filter is_classification (snd (log_request mc e m sc rt ua ip err now))) \<le> 1 \<and>
   length (filter (is_request_info m e sc rt) (snd (log_request mc e m sc rt ua ip err now))) = 1 \<and>
   length (filter (\<lambda>l. fst l = INFO) (snd (log_request mc e m sc rt ua ip err now))) = 1"
proof -
  have lines: "snd (log_request mc e m sc rt ua ip err now) =
     (INFO, Request m e sc rt) #
     (if 500 \<le> sc then [(ERROR, ServerError m e sc err)]
      else if 400 \<le> sc then [(WARNING, ClientError m e sc)]
      else if 10 < rt then [(WARNING, SlowRequest m e rt)]
      else [])"
    by (simp add: log_request_def add_request_def Let_def split_def)
  show ?thesis unfolding lines by simp
qed

subsection \<open>The health rules\<close>

text \<open>
  Claim C2. \<open>get_health_status\<close> evaluates four rules on the statistics, in
  this order: error rate above 10, average response time above 5000, a current
  snapshot with CPU above 90, a current snapshot with memory above 90. Its
  issues are those of the triggered rules in that order, and its verdict is
  \<open>healthy\<close> for no issue, \<open>degraded\<close> for one or two and \<open>unhealthy\<close> for
  three or four; so \<open>unhealthy\<close> when all four trigger and \<open>healthy\<close> with
  no issue when none does.
\<close>

theorem C2_classify_health_rules:
  assumes "fst (get_stats self now) = Inr st"
  shows "\<exists>h. fst (get_health_status self now now') = Inr h \<and>
           issues h = rule_issues st \<and>
           status h = verdict_of (length (issues h)) \<and>
           length (issues h) \<le> 4 \<and>
           (10 < error_rate_percent st \<and> 5000 < avg_response_time_ms st \<and>
            (\<exists>sys. current_system st = Some sys \<and> 90 < cpu_percent sys \<and>
                   90 < memory_percent sys)
            \<longrightarrow> status h = ''unhealthy'' \<and> length (issues h) = 4) \<and>
           (\<not> 10 < error_rate_percent st \<and> \<not> 5000 < avg_response_time_ms st \<and>
            (\<forall>sys. current_system st = Some sys \<longrightarrow>
                   \<not> 90 < cpu_percent sys \<and> \<not> 90 < memory_percent sys)
            \<longrightarrow> status h = ''healthy'' \<and> issues h = [])"
proof -
  obtain st' where st': "get_stats self now = (Inr st', self)"
    using get_stats_total by blast
  with assms have eq: "st' = st" by simp
  note r = get_health_status_result [OF st' [unfolded eq], of now']
  have len: "length (rule_issues st) \<le> 4"
    by (simp add: rule_issues_def split: option.splits)
  have all4: "10 < error_rate_percent st \<and> 5000 < avg_response_time_ms st \<and>
            (\<exists>sys. current_system st = Some sys \<and> 90 < cpu_percent sys \<and>
                   90 < memory_percent sys)
            \<longrightarrow> verdict_of (length (rule_issues st)) = ''unhealthy'' \<and>
                length (rule_issues st) = 4"
    by (auto simp: rule_issues_def verdict_of_def)
  have none: "\<not> 10 < error_rate_percent st \<and> \<not> 5000 < avg_response_time_ms st \<and>
            (\<forall>sys. current_system st = Some sys \<longrightarrow>
                   \<not> 90 < cpu_percent sys \<and> \<not> 90 < memory_percent sys)
            \<longrightarrow> verdict_of (length (rule_issues st)) = ''healthy'' \<and> rule_issues st = []"
    by (auto simp: rule_issues_def verdict_of_def split: option.splits)
  show ?thesis
    using len all4 none by (auto simp: r)
qed

lemma stats_overloaded:
  "fst (get_stats example_overloaded 1) =
     Inr \<lparr>uptime_seconds = 0, uptime_human = (0, 0), total_requests = 1,
          recent_requests_5min = 1, error_rate_percent = 100, avg_response_time_ms = 6000,
          current_system = Some (example_system 95 95),
          endpoints = [(''GET /a'', \<lparr>calls = 1, avg_response_time = 6, error_rate = 100,
                                    summary_last_called = Some 0\<rparr>)],
          stats_timestamp = 1\<rparr>"
  by code_simp

lemma stats_fresh_ex:
  "fst (get_stats (fresh 1000 0) 1) =
     Inr \<lparr>uptime_seconds = 0, uptime_human = (0, 0), total_requests = 0,
          recent_requests_5min = 0, error_rate_percent = 0, avg_response_time_ms = 0,
          current_system = None, endpoints = [], stats_timestamp = 1\<rparr>"
  by code_simp

theorem C2_classify_health_rules_witness:
  "(fst (get_stats example_overloaded 1) =
     Inr \<lparr>uptime_seconds = 0, uptime_human = (0, 0), total_requests = 1,
          recent_requests_5min = 1, error_rate_percent = 100, avg_response_time_ms = 6000,
          current_system = Some (example_system 95 95),
          endpoints = [(''GET /a'', \<lparr>calls = 1, avg_response_time = 6, error_rate = 100,
                                    summary_last_called = Some 0\<rparr>)],
          stats_timestamp = 1\<rparr> \<and>
    (\<exists>h. fst (get_health_status example_overloaded 1 2) = Inr h \<and>
         status h = ''unhealthy'' \<and>
         issues h = [HighErrorRate 100, SlowResponseTime 6000, HighCPU 95, HighMemory 95])) \<and>
   (fst (get_stats (fresh 1000 0) 1) =
     Inr \<lparr>uptime_seconds = 0, uptime_human = (0, 0), total_requests = 0,
          recent_requests_5min = 0, error_rate_percent = 0, avg_response_time_ms = 0,
          current_system = None, endpoints = [], stats_timestamp = 1\<rparr> \<and>
    (\<exists>h. fst (get_health_status (fresh 1000 0) 1 2) = Inr h \<and>
         status h = ''healthy'' \<and> issues h = []))"
proof -
  note a = stats_overloaded
  note b = stats_fresh_ex
  have A: "\<exists>h. fst (get_health_status example_overloaded 1 2) = Inr h \<and>
         status h = ''unhealthy'' \<and>
         issues h = [HighErrorRate 100, SlowResponseTime 6000, HighCPU 95, HighMemory 95]"
    using C2_classify_health_rules [OF a, of 2]
    by (auto simp: rule_issues_def example_system_def)
  have B: "\<exists>h. fst (get_health_status (fresh 1000 0) 1 2) = Inr h \<and>
         status h = ''healthy'' \<and> issues h = []"
    using C2_classify_health_rules [OF b, of 2] by auto
  from a b A B show ?thesis by blast
qed

subsection \<open>Repeated statistics\<close>

text \<open>
  Claim C8, as stated, fails: the statistics also report the uptime and the
  number of requests of the last five minutes, which depend on the clock. On
  the collector holding one request observed at time 0 and started at time 0,
  a call at time 0 and a call five minutes later differ in \<open>uptime_seconds\<close>
  (0 and 300), \<open>uptime_human\<close> and \<open>recent_requests_5min\<close> (1 and 0).
\<close>

theorem C8_counterexample:
  "\<not> agree_except_timestamp (fst (get_stats example_one_request 0))
        (fst (get_stats example_one_request 300000000))"
  by code_simp

text \<open>
  Claim C8, as amended. Two calls of \<open>get_stats\<close> on the same collector, at any
  two clock readings, both return, and their results agree in
  \<open>total_requests\<close>, \<open>error_rate_percent\<close>, \<open>avg_response_time_ms\<close>,
  \<open>current_system\<close> and \<open>endpoints\<close>; only \<open>uptime_seconds\<close>, \<open>uptime_human\<close>,
  \<open>recent_requests_5min\<close> and the timestamp can differ, and the timestamp of
  each is its clock reading.
\<close>

theorem C8_stats_repeatable_fields:
  "\<exists>x y. fst (get_stats self now1) = Inr x \<and> fst (get_stats self now2) = Inr y \<and>
         y = x\<lparr>uptime_seconds := uptime_seconds y, uptime_human := uptime_human y,
               recent_requests_5min := recent_requests_5min y,
               stats_timestamp := stats_timestamp y\<rparr> \<and>
         total_requests x = total_requests y \<and>
         error_rate_percent x = error_rate_percent y \<and>
         avg_response_time_ms x = avg_response_time_ms y \<and>
         current_system x = current_system y \<and>
         endpoints x = endpoints y \<and>
         stats_timestamp x = now1 \<and> stats_timestamp y = now2"
proof -
  obtain es where es: "endpoint_summary_loop (endpoint_stats self) [] = Inr es"
    using endpoint_summary_loop_total by blast
  show ?thesis
    by (simp add: get_stats_result [OF es])
qed

subsection \<open>Sequences of calls\<close>

lemma add_request_requests: "requests (fst (add_request s r)) = deque_append (requests s) r"
  by (simp add: add_request_def Let_def split_def)

lemma add_request_system_metrics: "system_metrics (fst (add_request s r)) = system_metrics s"
  by (simp add: add_request_def Let_def split_def)

lemma add_request_table:
  "map_of (endpoint_stats (fst (add_request s r))) =
     (map_of (endpoint_stats s))
       (endpoint_key r \<mapsto> record_sample (stat_before s (endpoint_key r)) r)"
  by (cases "map_of (endpoint_stats s) (endpoint_key r)")
     (simp_all add: add_request_def Let_def defaultdict_getitem_def stat_before_def
        record_sample_def AList.update_conv')

lemma add_request_distinct:
  "distinct (map fst (endpoint_stats s)) \<Longrightarrow>
   distinct (map fst (endpoint_stats (fst (add_request s r))))"
  by (cases "map_of (endpoint_stats s) (endpoint_key r)")
     (simp_all add: add_request_def Let_def defaultdict_getitem_def AList.distinct_update)

lemma log_request_state:
  "fst (log_request s e m sc rt ua ip err now) =
     fst (add_request s \<lparr>endpoint = e, method = m, status_code = sc, response_time = rt,
            timestamp = now, user_agent = ua, ip_address = ip, error_message = err\<rparr>)"
  by (simp add: log_request_def Let_def split_def)

lemma get_stats_state: "snd (get_stats s now) = s"
  using get_stats_total [of s now] by auto

lemma get_health_status_state: "snd (get_health_status s now now') = s"
proof -
  obtain st where st: "get_stats s now = (Inr st, s)"
    using get_stats_total by blast
  show ?thesis by (simp add: get_health_status_result [OF st])
qed

text \<open>Each call either inserts its sample or leaves buffer and table alone.\<close>

lemma step_sample:
  "sample_of c = Some r \<Longrightarrow> step s c = fst (add_request s r)"
  by (cases c) (auto simp: log_request_state)

lemma step_no_sample:
  "sample_of c = None \<Longrightarrow>
   requests (step s c) = requests s \<and> endpoint_stats (step s c) = endpoint_stats s"
  by (cases c) (auto simp: get_stats_state get_health_status_state add_system_metrics_def)

lemma run_snoc: "run s (ops @ [c]) = step (run s ops) c"
  by (simp add: run_def)

lemma run_Nil: "run s [] = s"
  by (simp add: run_def)

lemma inserted_Nil: "inserted [] = []"
  by (simp add: inserted_def List.map_filter_simps)

lemma inserted_snoc:
  "inserted (ops @ [c]) = inserted ops @ (case sample_of c of None \<Rightarrow> [] | Some r \<Rightarrow> [r])"
  by (simp add: inserted_def List.map_filter_def split: option.splits)

text \<open>The request buffer holds the last \<open>maxlen\<close> inserted samples.\<close>

lemma deque_append_maxlen: "maxlen (deque_append d x) = maxlen d"
  by (simp add: deque_append_def Let_def)

lemma tl_drop_snoc:
  "k \<le> length xs \<Longrightarrow> tl (drop k xs @ [x]) = drop (Suc k) (xs @ [x])"
proof -
  assume "k \<le> length xs"
  then have "drop k xs @ [x] = drop k (xs @ [x])" by simp
  then show ?thesis by (simp only: tl_drop drop_Suc)
qed

lemma deque_append_window:
  assumes "0 \<le> maxlen d" and "items d = drop (length xs - nat (maxlen d)) xs"
  shows "items (deque_append d x) =
           drop (length (xs @ [x]) - nat (maxlen d)) (xs @ [x])"
proof (cases "length xs < nat (maxlen d)")
  case True
  then have a: "items d = xs" using assms(2) by simp
  have b: "\<not> maxlen d < int (length (xs @ [x]))" using True by simp
  show ?thesis using a b True
    by (simp add: deque_append_def Let_def)
next
  case False
  then have len: "length (items d) = nat (maxlen d)"
    using assms by simp
  have k: "length xs - nat (maxlen d) \<le> length xs" by simp
  have "items (deque_append d x) = tl (items d @ [x])"
    using len assms(1) by (simp add: deque_append_def Let_def)
  also have "\<dots> = drop (Suc (length xs - nat (maxlen d))) (xs @ [x])"
    unfolding assms(2) by (rule tl_drop_snoc [OF k])
  also have "Suc (length xs - nat (maxlen d)) = length (xs @ [x]) - nat (maxlen d)"
    using False by simp
  finally show ?thesis .
qed

lemma run_requests:
  assumes "0 \<le> n"
  shows "maxlen (requests (run (fresh n t0) ops)) = n \<and>
         items (requests (run (fresh n t0) ops)) =
           drop (length (inserted ops) - nat n) (inserted ops)"
proof (induction ops rule: rev_induct)
  case Nil
  show ?case by (simp add: run_Nil inserted_Nil fresh_def)
next
  case (snoc c ops)
  show ?case
  proof (cases "sample_of c")
    case None
    with snoc show ?thesis
      by (simp add: run_snoc inserted_snoc step_no_sample)
  next
    case (Some r)
    have st: "run (fresh n t0) (ops @ [c]) = fst (add_request (run (fresh n t0) ops) r)"
      by (simp add: run_snoc step_sample [OF Some])
    have ml: "0 \<le> maxlen (requests (run (fresh n t0) ops))"
      using snoc assms by simp
    from snoc have it: "items (requests (run (fresh n t0) ops)) =
       drop (length (inserted ops) - nat (maxlen (requests (run (fresh n t0) ops)))) (inserted ops)"
      by simp
    show ?thesis
      using deque_append_window [OF ml it, of r] snoc
      by (simp add: st add_request_requests deque_append_maxlen inserted_snoc Some)
  qed
qed

text \<open>The table holds, for each key inserted so far, the aggregate of all samples
  inserted with that key.\<close>

lemma with_key_snoc:
  "with_key k (rs @ [r]) = with_key k rs @ (if endpoint_key r = k then [r] else [])"
  by (simp add: with_key_def)

lemma record_sample_aggregate:
  "record_sample (aggregate_of w) r = aggregate_of (w @ [r])"
  by (simp add: record_sample_def aggregate_of_def)

lemma aggregate_of_Nil: "aggregate_of [] = default_endpoint_stat"
  by (simp add: aggregate_of_def default_endpoint_stat_def)

lemma run_table:
  "distinct (map fst (endpoint_stats (run (fresh n t0) ops))) \<and>
   (\<forall>k. map_of (endpoint_stats (run (fresh n t0) ops)) k =
        (if with_key k (inserted ops) = [] then None
         else Some (aggregate_of (with_key k (inserted ops)))))"
proof (induction ops rule: rev_induct)
  case Nil
  show ?case by (simp add: run_Nil inserted_Nil fresh_def with_key_def)
next
  case (snoc c ops)
  let ?s = "run (fresh n t0) ops"
  show ?case
  proof (cases "sample_of c")
    case None
    with snoc show ?thesis
      by (simp add: run_snoc inserted_snoc step_no_sample)
  next
    case (Some r)
    have st: "run (fresh n t0) (ops @ [c]) = fst (add_request ?s r)"
      by (simp add: run_snoc step_sample [OF Some])
    have before: "stat_before ?s (endpoint_key r) =
                    aggregate_of (with_key (endpoint_key r) (inserted ops))"
      using snoc by (simp add: stat_before_def aggregate_of_Nil)
    have d: "distinct (map fst (endpoint_stats (fst (add_request ?s r))))"
      using snoc by (simp add: add_request_distinct)
    have t: "\<forall>k. map_of (endpoint_stats (fst (add_request ?s r))) k =
        (if with_key k (inserted ops @ [r]) = [] then None
         else Some (aggregate_of (with_key k (inserted ops @ [r]))))"
      using snoc
      by (simp add: add_request_table before record_sample_aggregate with_key_snoc)
    show ?thesis
      using d t by (simp add: st inserted_snoc Some)
  qed
qed

subsection \<open>The bounded request buffer\<close>

text \<open>
  Claim C1. On a collector constructed with capacity \<open>n\<close>, after any sequence
  of calls the request buffer holds at most \<open>n\<close> samples: it holds the last
  \<open>n\<close> samples inserted, oldest first (all of them while they are at most
  \<open>n\<close>). \<open>total_requests\<close> of the statistics is the number of insertions
  while that is at most \<open>n\<close> and \<open>n\<close> afterwards. An insertion into a full
  buffer appends the sample and drops the oldest one; an insertion into a
  buffer that is not full only appends. The default capacity is 1000.
\<close>

theorem C1_request_buffer_bounded_fifo:
  assumes "init n t0 = Inr s0"
  shows "int (length (items (requests (run s0 ops)))) \<le> n \<and>
         items (requests (run s0 ops)) = drop (length (inserted ops) - nat n) (inserted ops) \<and>
         (\<exists>st. fst (get_stats (run s0 ops) now) = Inr st \<and>
               total_requests st =
                 (if int (length (inserted ops)) \<le> n then int (length (inserted ops)) else n)) \<and>
         (int (length (items (requests (run s0 ops)))) = n \<longrightarrow>
            items (requests (fst (add_request (run s0 ops) r))) =
              tl (items (requests (run s0 ops)) @ [r])) \<and>
         (int (length (items (requests (run s0 ops)))) < n \<longrightarrow>
            items (requests (fst (add_request (run s0 ops) r))) =
              items (requests (run s0 ops)) @ [r]) \<and>
         init default_max_requests t0 = Inr (fresh 1000 t0)"
proof -
  from assms have n: "0 \<le> n" and s0: "s0 = fresh n t0"
    by (simp_all add: init_Inr)
  let ?s = "run s0 ops"
  note w = run_requests [OF n, of t0 ops, folded s0]
  have bound: "int (length (items (requests ?s))) \<le> n"
    using w n by simp
  obtain st where st: "get_stats ?s now = (Inr st, ?s)"
    using get_stats_total by blast
  obtain es where es: "endpoint_summary_loop (endpoint_stats ?s) [] = Inr es"
    using endpoint_summary_loop_total by blast
  have tr: "total_requests st = int (length (items (requests ?s)))"
    using st unfolding get_stats_result [OF es] by auto
  have cnt: "int (length (items (requests ?s))) =
           (if int (length (inserted ops)) \<le> n then int (length (inserted ops)) else n)"
    using w n by auto
  have full: "int (length (items (requests ?s))) = n \<longrightarrow>
            items (requests (fst (add_request ?s r))) = tl (items (requests ?s) @ [r])"
    using w by (simp add: add_request_requests deque_append_def Let_def)
  have room: "int (length (items (requests ?s))) < n \<longrightarrow>
            items (requests (fst (add_request ?s r))) = items (requests ?s) @ [r]"
    using w by (simp add: add_request_requests deque_append_def Let_def)
  have dflt: "init default_max_requests t0 = Inr (fresh 1000 t0)"
    by (simp add: init_Inr default_max_requests_def)
  have stats: "\<exists>st. fst (get_stats ?s now) = Inr st \<and>
               total_requests st =
                 (if int (length (inserted ops)) \<le> n then int (length (inserted ops)) else n)"
    using st tr cnt by simp
  from bound w stats full room dflt show ?thesis by blast
qed

theorem C1_request_buffer_bounded_fifo_witness:
  "init 2 0 = Inr (fresh 2 0) \<and>
   items (requests (run (fresh 2 0) example_calls)) =
     [example_request ''/a'' 500 2 1, example_request ''/b'' 200 3 2] \<and>
   (\<exists>st. fst (get_stats (run (fresh 2 0) example_calls) 9) = Inr st \<and> total_requests st = 2) \<and>
   items (requests (fst (add_request (run (fresh 2 0) example_calls)
                          (example_request ''/c'' 200 4 3)))) =
     [example_request ''/b'' 200 3 2, example_request ''/c'' 200 4 3] \<and>
   items (requests (fst (add_request (run (fresh 2 0) []) (example_request ''/c'' 200 4 3)))) =
     [example_request ''/c'' 200 4 3]"
proof -
  have h: "init 2 0 = Inr (fresh 2 0)"
    by (simp add: init_Inr)
  have ins: "inserted example_calls =
     [example_request ''/a'' 200 1 0, example_request ''/a'' 500 2 1,
      example_request ''/b'' 200 3 2]"
    by (simp add: inserted_def example_calls_def)
  have ins0: "inserted [] = []"
    by (simp add: inserted_def)
  note a = C1_request_buffer_bounded_fifo [OF h, of example_calls 9 "example_request ''/c'' 200 4 3"]
  note b = C1_request_buffer_bounded_fifo [OF h, of "[]" 9 "example_request ''/c'' 200 4 3"]
  have items_a: "items (requests (run (fresh 2 0) example_calls)) =
     [example_request ''/a'' 500 2 1, example_request ''/b'' 200 3 2]"
    using a by (simp add: ins)
  have items_b: "items (requests (run (fresh 2 0) [])) = []"
    using b by (simp add: ins0)
  show ?thesis
    using h a b by (simp add: items_a items_b ins)
qed

subsection \<open>The per-endpoint table\<close>

text \<open>
  Claim C4. The key of a sample is the text \<open>method\<close>, a space,
  \<open>endpoint\<close>. On a collector constructed with any capacity, after any
  sequence of calls a key is in the table exactly when a sample with that key
  was inserted, and its \<open>count\<close> is the number of all samples ever inserted
  with that key, whatever the request buffer has dropped since. An insertion
  raises the \<open>count\<close> of its key by one, raises \<open>errors\<close> by one when the
  status code is at least 400 and leaves it otherwise, and leaves every other
  key's entry as it was.
\<close>

theorem C4_call_count_is_lifetime_count:
  assumes "init n t0 = Inr s0"
  shows "(map_of (endpoint_stats (run s0 ops)) k = None) = (with_key k (inserted ops) = []) \<and>
         count (stat_before (run s0 ops) k) = int (length (with_key k (inserted ops))) \<and>
         (\<exists>st'. map_of (endpoint_stats (fst (add_request (run s0 ops) r))) (endpoint_key r) =
                  Some st' \<and>
                count st' = count (stat_before (run s0 ops) (endpoint_key r)) + 1 \<and>
                errors st' = errors (stat_before (run s0 ops) (endpoint_key r)) +
                               (if 400 \<le> status_code r then 1 else 0)) \<and>
         (k \<noteq> endpoint_key r \<longrightarrow>
            map_of (endpoint_stats (fst (add_request (run s0 ops) r))) k =
              map_of (endpoint_stats (run s0 ops)) k)"
proof -
  from assms have s0: "s0 = fresh n t0"
    by (simp add: init_Inr)
  note t = run_table [of n t0 ops, folded s0]
  have present: "(map_of (endpoint_stats (run s0 ops)) k = None) =
                   (with_key k (inserted ops) = [])"
    using t by simp
  have cnt: "count (stat_before (run s0 ops) k) = int (length (with_key k (inserted ops)))"
    using t by (simp add: stat_before_def aggregate_of_def default_endpoint_stat_def)
  have ins: "\<exists>st'. map_of (endpoint_stats (fst (add_request (run s0 ops) r))) (endpoint_key r) =
                  Some st' \<and>
                count st' = count (stat_before (run s0 ops) (endpoint_key r)) + 1 \<and>
                errors st' = errors (stat_before (run s0 ops) (endpoint_key r)) +
                               (if 400 \<le> status_code r then 1 else 0)"
    by (simp add: add_request_table record_sample_def)
  have other: "k \<noteq> endpoint_key r \<longrightarrow>
            map_of (endpoint_stats (fst (add_request (run s0 ops) r))) k =
              map_of (endpoint_stats (run s0 ops)) k"
    by (simp add: add_request_table)
  from present cnt ins other show ?thesis by blast
qed

lemma inserted_example_calls:
  "inserted example_calls =
     [example_request ''/a'' 200 1 0, example_request ''/a'' 500 2 1,
      example_request ''/b'' 200 3 2]"
  by (simp add: inserted_def example_calls_def)

lemma with_key_example_a:
  "with_key ''GET /a'' (inserted example_calls) =
     [example_request ''/a'' 200 1 0, example_request ''/a'' 500 2 1]"
  by (simp add: inserted_example_calls with_key_def endpoint_key_def example_request_def)

theorem C4_call_count_is_lifetime_count_witness:
  "init 1 0 = Inr (fresh 1 0) \<and>
   items (requests (run (fresh 1 0) example_calls)) = [example_request ''/b'' 200 3 2] \<and>
   count (stat_before (run (fresh 1 0) example_calls) ''GET /a'') = 2 \<and>
   ''GET /a'' \<noteq> endpoint_key (example_request ''/b'' 500 4 3) \<and>
   map_of (endpoint_stats (fst (add_request (run (fresh 1 0) example_calls)
                                  (example_request ''/b'' 500 4 3)))) ''GET /a'' =
     map_of (endpoint_stats (run (fresh 1 0) example_calls)) ''GET /a''"
proof -
  have h: "init 1 0 = Inr (fresh 1 0)"
    by (simp add: init_Inr)
  have buf: "items (requests (run (fresh 1 0) example_calls)) = [example_request ''/b'' 200 3 2]"
    using run_requests [of 1 0 example_calls] by (simp add: inserted_example_calls)
  have k: "''GET /a'' \<noteq> endpoint_key (example_request ''/b'' 500 4 3)"
    by (simp add: endpoint_key_def example_request_def)
  show ?thesis
    using h buf k
      C4_call_count_is_lifetime_count [OF h, of example_calls "''GET /a''"
        "example_request ''/b'' 500 4 3"]
    by (simp add: with_key_example_a)
qed



subsection \<open>Error rate and mean response time\<close>














end
